theory Spec2Isabelle
  imports Main "HOL-Library.Sublist" "HOL-Library.Multiset" "HOL-Library.Word" "HOL-Library.AList"
begin

unbundle bit_operations_syntax

section \<open>Strings of the runtime\<close>

text \<open>
  Strings are lists of characters. The operations below are the methods of the
  JavaScript string prototype that the components call, written as executable
  functions: \<open>s.startsWith(p)\<close>, \<open>s.split(c)\<close> for a one-character separator,
  \<open>s.includes(t)\<close> and \<open>s.toLowerCase()\<close> (on the letters A to Z; the other
  characters are left as they are).
\<close>

definition startsWith :: "string \<Rightarrow> string \<Rightarrow> bool" where
  "startsWith s p = (take (length p) s = p)"

fun split :: "char \<Rightarrow> string \<Rightarrow> string list" where
  "split c [] = [[]]"
| "split c (x # xs) =
     (if x = c then [] # split c xs
      else (case split c xs of
              [] \<Rightarrow> [[x]]
            | w # ws \<Rightarrow> (x # w) # ws))"

fun includes_str :: "string \<Rightarrow> string \<Rightarrow> bool" where
  "includes_str [] t = (t = [])"
| "includes_str (x # xs) t = (startsWith (x # xs) t \<or> includes_str xs t)"

definition lowerChar :: "char \<Rightarrow> char" where
  "lowerChar c =
     (case map_of (zip ''ABCDEFGHIJKLMNOPQRSTUVWXYZ'' ''abcdefghijklmnopqrstuvwxyz'') c of
        None \<Rightarrow> c
      | Some l \<Rightarrow> l)"

definition toLowerCase :: "string \<Rightarrow> string" where
  "toLowerCase s = map lowerChar s"

section \<open>Records of the registry\<close>

text \<open>
  An attribute is a key with a value object whose only consumed member is the
  optional \<open>string\<close>. A deployment record has an identifier, names and
  attributes; an application record has these and, in addition, the bond
  identifier, the two timestamps (as the strings the registry sends) and the
  owner addresses, so it is written as an extension of the former.
\<close>

record Value =
  string :: "string option"

record Attribute =
  key :: string
  "value" :: Value

record DeploymentRecord =
  recId :: string
  names :: "string list"
  attributes :: "Attribute list"

record ApplicationRecord = DeploymentRecord +
  bondId :: string
  createTime :: string
  expiryTime :: string
  owners :: "string list"

text \<open>
  \<open>attrs.find(attr => attr.key === k)?.value.string\<close>: the string of the first
  attribute with key \<open>k\<close>, if there is such an attribute and it has a string.
\<close>

definition attrString :: "string \<Rightarrow> Attribute list \<Rightarrow> string option" where
  "attrString k attrs =
     (case find (\<lambda>attr. key attr = k) attrs of
        None \<Rightarrow> None
      | Some attr \<Rightarrow> string (value attr))"

text \<open>\<open>x || d\<close> on an optional string: the default replaces both undefined and the empty string.\<close>

definition orElse :: "string option \<Rightarrow> string \<Rightarrow> string" where
  "orElse x d = (case x of None \<Rightarrow> d | Some s \<Rightarrow> if s = [] then d else s)"

section \<open>Record normaliser: the authority of a record\<close>

text \<open>
  \<open>getAuthority\<close> of \<open>Applist.tsx\<close>: the first name that starts with \<open>lrn://\<close> is
  split on the slash, and the part at index 2 is returned unless it is missing
  or empty; every other case gives \<open>Unknown\<close>.
\<close>

definition nth_opt :: "'a list \<Rightarrow> nat \<Rightarrow> 'a option" where
  "nth_opt xs i = (if i < length xs then Some (xs ! i) else None)"

definition getAuthority :: "string list \<Rightarrow> string" where
  "getAuthority ns =
     (case find (\<lambda>name. startsWith name ''lrn://'') ns of
        None \<Rightarrow> ''Unknown''
      | Some lrnName \<Rightarrow>
          if lrnName = [] then ''Unknown''
          else orElse (nth_opt (split (CHR ''/'') lrnName) 2) ''Unknown'')"

section \<open>Address codec\<close>

text \<open>
  \<open>hexToBech32\<close> of \<open>Applist.tsx\<close> calls two libraries of the runtime, which are
  not part of the repository; they are written out here as the libraries
  behave, so that the function can be evaluated.

  \<open>Buffer.from(s, 'hex')\<close> reads the string two characters at a time and stops,
  without raising, at the first pair that is not two hexadecimal digits; a last
  single character is ignored. The bytes read so far are the buffer.
\<close>

definition unhex :: "char \<Rightarrow> nat option" where
  "unhex c =
     (let n = (of_char c :: nat)
      in if 48 \<le> n \<and> n \<le> 57 then Some (n - 48)
         else if 97 \<le> n \<and> n \<le> 102 then Some (n - 87)
         else if 65 \<le> n \<and> n \<le> 70 then Some (n - 55)
         else None)"

fun Buffer_from_hex :: "string \<Rightarrow> 8 word list" where
  "Buffer_from_hex (a # b # rest) =
     (case unhex a of
        None \<Rightarrow> []
      | Some hi \<Rightarrow>
          (case unhex b of
             None \<Rightarrow> []
           | Some lo \<Rightarrow> of_nat (16 * hi + lo) # Buffer_from_hex rest))"
| "Buffer_from_hex [a] = []"
| "Buffer_from_hex [] = []"

text \<open>
  The \<open>bech32\<close> package works on 32-bit integers. \<open>toWords\<close> regroups bytes into
  groups of five bits, most significant bit first, and pads the last group with
  zero bits. \<open>encode\<close> raises when prefix, separator, data and checksum would
  be longer than 90 characters, when the prefix has a character outside the
  codes 33 to 126, or when a word has more than five bits; otherwise it returns
  the lower-cased prefix, the separator \<open>1\<close>, one character of the alphabet for
  each word, and six characters of checksum. A raise is the left summand.
\<close>

definition ALPHABET :: string where
  "ALPHABET = ''qpzry9x8gf2tvdw0s3jn54khce6mua7l''"

definition charAt :: "string \<Rightarrow> nat \<Rightarrow> string" where
  "charAt s i = (if i < length s then [s ! i] else [])"

definition polymodStep :: "32 word \<Rightarrow> 32 word" where
  "polymodStep pre =
     (let b = signed_drop_bit 25 pre
      in push_bit 5 (pre AND 0x1FFFFFF)
         XOR ((- (signed_drop_bit 0 b AND 1)) AND 0x3b6a57b2)
         XOR ((- (signed_drop_bit 1 b AND 1)) AND 0x26508e6d)
         XOR ((- (signed_drop_bit 2 b AND 1)) AND 0x1ea119fa)
         XOR ((- (signed_drop_bit 3 b AND 1)) AND 0x3d4233dd)
         XOR ((- (signed_drop_bit 4 b AND 1)) AND 0x2a1462b3))"

fun prefixChkHigh :: "string \<Rightarrow> 32 word \<Rightarrow> string + 32 word" where
  "prefixChkHigh [] chk = Inr chk"
| "prefixChkHigh (c # cs) chk =
     (if (of_char c :: nat) < 33 \<or> 126 < (of_char c :: nat) then Inl ''Invalid prefix''
      else prefixChkHigh cs (polymodStep chk XOR signed_drop_bit 5 (of_char c)))"

fun prefixChkLow :: "string \<Rightarrow> 32 word \<Rightarrow> 32 word" where
  "prefixChkLow [] chk = chk"
| "prefixChkLow (c # cs) chk = prefixChkLow cs (polymodStep chk XOR (of_char c AND 0x1f))"

definition prefixChk :: "string \<Rightarrow> string + 32 word" where
  "prefixChk hrp =
     (case prefixChkHigh hrp 1 of
        Inl e \<Rightarrow> Inl e
      | Inr chk \<Rightarrow> Inr (prefixChkLow hrp (polymodStep chk)))"

fun encodeWords :: "32 word list \<Rightarrow> 32 word \<Rightarrow> string \<Rightarrow> string + (32 word \<times> string)" where
  "encodeWords [] chk result = Inr (chk, result)"
| "encodeWords (x # xs) chk result =
     (if signed_drop_bit 5 x \<noteq> 0 then Inl ''Non 5-bit word''
      else encodeWords xs (polymodStep chk XOR x) (result @ charAt ALPHABET (unat x)))"

definition bech32_encode :: "string \<Rightarrow> 32 word list \<Rightarrow> string + string" where
  "bech32_encode hrp words =
     (if 90 < length hrp + 7 + length words then Inl ''Exceeds length limit''
      else
        (case prefixChk (toLowerCase hrp) of
           Inl e \<Rightarrow> Inl e
         | Inr chk0 \<Rightarrow>
             (case encodeWords words chk0 (toLowerCase hrp @ ''1'') of
                Inl e \<Rightarrow> Inl e
              | Inr (chk1, result) \<Rightarrow>
                  (let chk = (polymodStep ^^ 6) chk1 XOR 1
                   in Inr (result @
                        concat (map (\<lambda>i. charAt ALPHABET
                                  (unat (signed_drop_bit ((5 - i) * 5) chk AND 0x1f)))
                                [0 ..< 6]))))))"

function wordsOut :: "32 word \<Rightarrow> nat \<Rightarrow> 32 word list \<Rightarrow> nat \<times> 32 word list" where
  "wordsOut v bits result =
     (if 5 \<le> bits
      then wordsOut v (bits - 5) (result @ [signed_drop_bit (bits - 5) v AND 0x1f])
      else (bits, result))"
  by pat_completeness auto
termination
  by (relation "measure (\<lambda>(v, bits, result). bits)") auto

declare wordsOut.simps [simp del]

fun convertLoop :: "8 word list \<Rightarrow> 32 word \<Rightarrow> nat \<Rightarrow> 32 word list
                     \<Rightarrow> 32 word \<times> nat \<times> 32 word list" where
  "convertLoop [] v bits result = (v, bits, result)"
| "convertLoop (d # ds) v bits result =
     (let v' = push_bit 8 v OR ucast d
      in case wordsOut v' (bits + 8) result of
           (bits', result') \<Rightarrow> convertLoop ds v' bits' result')"

definition bech32_toWords :: "8 word list \<Rightarrow> 32 word list" where
  "bech32_toWords bytes =
     (case convertLoop bytes 0 0 [] of
        (v, bits, result) \<Rightarrow>
          if 0 < bits then result @ [push_bit (5 - bits) v AND 0x1f] else result)"

text \<open>The words that \<open>encode\<close> accepts: none has a bit above the lowest five.\<close>

definition fiveBit :: "32 word list \<Rightarrow> bool" where
  "fiveBit ws = list_all (\<lambda>x. signed_drop_bit 5 x = 0) ws"

text \<open>
  \<open>hexToBech32\<close>: the try block returns the encoding; the catch block returns
  the address it was given. Decoding and regrouping never raise, so the catch
  block is entered exactly when \<open>encode\<close> raises.
\<close>

definition hexToBech32 :: "string \<Rightarrow> string" where
  "hexToBech32 hexAddress =
     (case bech32_encode ''laconic'' (bech32_toWords (Buffer_from_hex hexAddress)) of
        Inl e \<Rightarrow> hexAddress
      | Inr encoded \<Rightarrow> encoded)"

section \<open>List aggregator\<close>

text \<open>
  Dates are time values in milliseconds. Three services of the runtime are
  parameters of the model: \<open>parseDate s\<close> is the time value of \<open>new Date(s)\<close>,
  \<open>None\<close> for an invalid date (whose comparisons are all false); \<open>now\<close> is the
  time value of \<open>new Date()\<close>; \<open>shiftDate t n\<close> is the time value after
  \<open>d.setDate(d.getDate() + n)\<close> on a date \<open>d\<close> holding \<open>t\<close>, which moves the local
  calendar date by \<open>n\<close> days and keeps the local time of day.
  \<open>shiftDateFixedOffset\<close> is that service in a time zone whose offset never
  changes.
\<close>

definition shiftDateFixedOffset :: "int \<Rightarrow> int \<Rightarrow> int" where
  "shiftDateFixedOffset t n = t + n * 86400000"

definition Set_size :: "'a list \<Rightarrow> nat" where
  "Set_size xs = length (remdups xs)"

definition isRecentlyCreated ::
  "(string \<Rightarrow> int option) \<Rightarrow> (int \<Rightarrow> int \<Rightarrow> int) \<Rightarrow> int \<Rightarrow> ApplicationRecord \<Rightarrow> bool" where
  "isRecentlyCreated parseDate shiftDate now app =
     (case parseDate (createTime app) of
        None \<Rightarrow> False
      | Some creationDate \<Rightarrow>
          (let thirtyDaysAgo = shiftDate now (- 30)
           in creationDate > thirtyDaysAgo))"

definition isSoonExpiring ::
  "(string \<Rightarrow> int option) \<Rightarrow> (int \<Rightarrow> int \<Rightarrow> int) \<Rightarrow> int \<Rightarrow> ApplicationRecord \<Rightarrow> bool" where
  "isSoonExpiring parseDate shiftDate now app =
     (case parseDate (expiryTime app) of
        None \<Rightarrow> False
      | Some expiryDate \<Rightarrow>
          (let thirtyDaysLater = shiftDate now 30
           in expiryDate < thirtyDaysLater))"

record Stats =
  totalApps :: nat
  uniqueAuthorities :: nat
  recentlyCreated :: nat
  soonExpiring :: nat

definition stats ::
  "(string \<Rightarrow> int option) \<Rightarrow> (int \<Rightarrow> int \<Rightarrow> int) \<Rightarrow> int \<Rightarrow> ApplicationRecord list \<Rightarrow> Stats" where
  "stats parseDate shiftDate now apps =
     \<lparr> totalApps = length apps,
       uniqueAuthorities = Set_size (map (\<lambda>app. getAuthority (names app)) apps),
       recentlyCreated = length (filter (isRecentlyCreated parseDate shiftDate now) apps),
       soonExpiring = length (filter (isSoonExpiring parseDate shiftDate now) apps) \<rparr>"

section \<open>Filter and sort engine\<close>

text \<open>
  The predicate of the \<open>filter\<close> call in \<open>filteredAndSortedApps\<close>. The name is
  the string of the \<open>name\<close> attribute or the empty string; the owner is
  \<open>hexToBech32\<close> of the first owner or of the empty string.
\<close>

definition matchesSearch :: "string \<Rightarrow> ApplicationRecord \<Rightarrow> bool" where
  "matchesSearch searchTerm app =
     (let name = orElse (attrString ''name'' (attributes app)) [];
          authority = getAuthority (names app);
          owner = hexToBech32 (orElse (nth_opt (owners app) 0) []);
          searchLower = toLowerCase searchTerm
      in includes_str (toLowerCase name) searchLower
         \<or> includes_str (toLowerCase authority) searchLower
         \<or> includes_str (toLowerCase owner) searchLower)"

text \<open>The name a card shows: the \<open>name\<close> attribute or \<open>Unnamed App\<close>.\<close>

definition displayName :: "ApplicationRecord \<Rightarrow> string" where
  "displayName app = orElse (attrString ''name'' (attributes app)) ''Unnamed App''"

datatype SortOption = SortTime | SortName | SortAuthority | SortOwner

text \<open>
  The comparison function of the \<open>sort\<close> call. \<open>localeCompare\<close> is a service of
  the runtime and a parameter here. A difference of time values that involves
  an invalid date is NaN, which the sort reads as 0.
\<close>

definition compareApps ::
  "(string \<Rightarrow> int option) \<Rightarrow> (string \<Rightarrow> string \<Rightarrow> int) \<Rightarrow> SortOption
     \<Rightarrow> ApplicationRecord \<Rightarrow> ApplicationRecord \<Rightarrow> int" where
  "compareApps parseDate localeCompare sortOption a b =
     (case sortOption of
        SortTime \<Rightarrow>
          (case parseDate (createTime b) of
             None \<Rightarrow> 0
           | Some tb \<Rightarrow> (case parseDate (createTime a) of None \<Rightarrow> 0 | Some ta \<Rightarrow> tb - ta))
      | SortName \<Rightarrow>
          localeCompare (orElse (attrString ''name'' (attributes a)) [])
                        (orElse (attrString ''name'' (attributes b)) [])
      | SortAuthority \<Rightarrow> localeCompare (getAuthority (names a)) (getAuthority (names b))
      | SortOwner \<Rightarrow>
          localeCompare (hexToBech32 (orElse (nth_opt (owners a) 0) []))
                        (hexToBech32 (orElse (nth_opt (owners b) 0) [])))"

text \<open>
  \<open>Array.prototype.sort\<close> with a comparison function, as a stable insertion
  sort: an element goes before the first later element it does not compare
  greater than.
\<close>

fun insertBy :: "('a \<Rightarrow> 'a \<Rightarrow> int) \<Rightarrow> 'a \<Rightarrow> 'a list \<Rightarrow> 'a list" where
  "insertBy cmp x [] = [x]"
| "insertBy cmp x (y # ys) = (if cmp x y \<le> 0 then x # y # ys else y # insertBy cmp x ys)"

definition sortBy :: "('a \<Rightarrow> 'a \<Rightarrow> int) \<Rightarrow> 'a list \<Rightarrow> 'a list" where
  "sortBy cmp xs = foldr (insertBy cmp) xs []"

definition filteredAndSortedApps ::
  "(string \<Rightarrow> int option) \<Rightarrow> (string \<Rightarrow> string \<Rightarrow> int) \<Rightarrow> SortOption \<Rightarrow> string
     \<Rightarrow> ApplicationRecord list \<Rightarrow> ApplicationRecord list" where
  "filteredAndSortedApps parseDate localeCompare sortOption searchTerm apps =
     sortBy (compareApps parseDate localeCompare sortOption)
            (filter (matchesSearch searchTerm) apps)"

section \<open>Fetch orchestrator\<close>

text \<open>
  The body of a reply of the registry, as far as the components read it: the
  member \<open>errors\<close> and the member \<open>data\<close> with its \<open>appDeploymentRecords\<close>;
  \<open>None\<close> stands for a member that is missing or null. A request ends either
  rejected (the transport failed, the body could not be read) or resolved with
  a body. The state of a page is its record list and its loading flag; the
  list is what the setter was given, so it is \<open>None\<close> after a setter call with
  a missing or null list.
\<close>

record 'r QueryData =
  appDeploymentRecords :: "'r list option"

record 'r GraphQLBody =
  errors :: "string list option"
  data :: "'r QueryData option"

datatype 'r Reply = Rejected | Resolved "'r GraphQLBody"

record AppListState =
  apps :: "ApplicationRecord list option"
  isLoading :: bool

record DeploymentPageState =
  deployments :: "DeploymentRecord list option"
  isLoading' :: bool

definition initialAppList :: AppListState where
  "initialAppList = \<lparr> apps = Some [], isLoading = True \<rparr>"

definition initialDeploymentPage :: DeploymentPageState where
  "initialDeploymentPage = \<lparr> deployments = Some [], isLoading' = True \<rparr>"

text \<open>
  \<open>fetchApps\<close> of \<open>Applist.tsx\<close>: reading \<open>response.data.data.appDeploymentRecords\<close>
  raises inside the try block when \<open>data\<close> is missing, and the catch block
  only logs.
\<close>

definition fetchApps :: "ApplicationRecord Reply \<Rightarrow> AppListState \<Rightarrow> AppListState" where
  "fetchApps reply st =
     (let st1 = st\<lparr> isLoading := True \<rparr>;
          st2 = (case reply of
                   Rejected \<Rightarrow> st1
                 | Resolved body \<Rightarrow>
                     (case data body of
                        None \<Rightarrow> st1
                      | Some d \<Rightarrow> st1\<lparr> apps := appDeploymentRecords d \<rparr>))
      in st2\<lparr> isLoading := False \<rparr>)"

text \<open>
  \<open>fetchDeployments\<close> of the detail page: a body with \<open>errors\<close> raises before
  the setter is reached.
\<close>

definition fetchDeployments ::
  "DeploymentRecord Reply \<Rightarrow> DeploymentPageState \<Rightarrow> DeploymentPageState" where
  "fetchDeployments reply st =
     (let st1 = (case reply of
                   Rejected \<Rightarrow> st
                 | Resolved body \<Rightarrow>
                     if errors body \<noteq> None then st
                     else (case data body of
                             None \<Rightarrow> st
                           | Some d \<Rightarrow> st\<lparr> deployments := appDeploymentRecords d \<rparr>))
      in st1\<lparr> isLoading' := False \<rparr>)"

text \<open>
  What the list page renders. The statistics and the filtered list are computed
  from the record list at the start of every render, before the loading flag
  is looked at, and reading \<open>apps.length\<close> raises when the list is missing;
  then comes the spinner while loading, and the page otherwise.
\<close>

datatype 'a Rendered = Spinner | Page 'a | RenderRaises

definition renderAppList :: "AppListState \<Rightarrow> ApplicationRecord list Rendered" where
  "renderAppList st =
     (case apps st of
        None \<Rightarrow> RenderRaises
      | Some as \<Rightarrow> if isLoading st then Spinner else Page as)"

section \<open>The check-url route\<close>

text \<open>
  The request is its \<open>url\<close> query parameter (\<open>None\<close> when absent); \<open>fetchHead\<close>
  is the outcome of the HEAD request of the runtime: it raises, or it answers
  with a status code, and \<open>response.ok\<close> holds for the codes 200 to 299.
\<close>

datatype HeadReply = HeadRaised | HeadResponse nat

definition response_ok :: "nat \<Rightarrow> bool" where
  "response_ok code = (200 \<le> code \<and> code \<le> 299)"

datatype Json = ErrorJson string | IsAvailableJson bool

record HttpResponse =
  status :: nat
  body :: Json

definition GET :: "(string \<Rightarrow> HeadReply) \<Rightarrow> string option \<Rightarrow> HttpResponse" where
  "GET fetchHead url =
     (case url of
        None \<Rightarrow> \<lparr> status = 400, body = ErrorJson ''URL parameter is required'' \<rparr>
      | Some u \<Rightarrow>
          if u = [] then \<lparr> status = 400, body = ErrorJson ''URL parameter is required'' \<rparr>
          else (case fetchHead u of
                  HeadRaised \<Rightarrow> \<lparr> status = 200, body = IsAvailableJson False \<rparr>
                | HeadResponse code \<Rightarrow>
                    \<lparr> status = 200, body = IsAvailableJson (response_ok code) \<rparr>))"

section \<open>URL reachability prober\<close>

text \<open>
  The status object is an association list in insertion order; setting a key
  keeps the place of a key that is there and appends a new one. The effects of
  \<open>checkUrls\<close> are listed in the order they happen: a call of the state setter
  with the new status object, or a request to the check-url route for a URL.
  The outcome of the \<open>i\<close>-th request is \<open>env i url\<close>: the request or the reading
  of its body raises, or the body is read and \<open>isAvailable\<close> is truthy or not.
\<close>

datatype UrlStatus = Checking | Available | Unavailable

type_synonym UrlStatuses = "(string \<times> UrlStatus) list"

datatype CheckReply = CheckRaised | CheckJson bool

datatype Effect = SetUrlStatuses UrlStatuses | FetchCheckUrl string

definition fromEntries :: "(string \<times> 'v) list \<Rightarrow> (string \<times> 'v) list" where
  "fromEntries entries = fold (\<lambda>(k, v) obj. AList.update k v obj) entries []"

definition probeStatus :: "CheckReply \<Rightarrow> UrlStatus" where
  "probeStatus reply =
     (case reply of
        CheckRaised \<Rightarrow> Unavailable
      | CheckJson isAvailable \<Rightarrow> if isAvailable then Available else Unavailable)"

fun probeLoop :: "(nat \<Rightarrow> string \<Rightarrow> CheckReply) \<Rightarrow> nat \<Rightarrow> string list \<Rightarrow> UrlStatuses
                   \<Rightarrow> Effect list" where
  "probeLoop env i [] prev = []"
| "probeLoop env i (url # urls) prev =
     (let next = AList.update url (probeStatus (env i url)) prev
      in FetchCheckUrl url # SetUrlStatuses next # probeLoop env (Suc i) urls next)"

definition checkUrls :: "(nat \<Rightarrow> string \<Rightarrow> CheckReply) \<Rightarrow> DeploymentRecord \<Rightarrow> Effect list" where
  "checkUrls env deployment =
     (case find (\<lambda>attr. key attr = ''url'') (attributes deployment) of
        None \<Rightarrow> []
      | Some urlAttribute \<Rightarrow>
          (case string (value urlAttribute) of
             None \<Rightarrow> []
           | Some s \<Rightarrow>
               if s = [] then []
               else
                 (let urls = split (CHR '','') s;
                      initialStatuses = fromEntries (map (\<lambda>url. (url, Checking)) urls)
                  in SetUrlStatuses initialStatuses # probeLoop env 0 urls initialStatuses)))"

fun statusHistory :: "Effect list \<Rightarrow> UrlStatuses list" where
  "statusHistory [] = []"
| "statusHistory (SetUrlStatuses st # es) = st # statusHistory es"
| "statusHistory (FetchCheckUrl url # es) = statusHistory es"

fun probedUrls :: "Effect list \<Rightarrow> string list" where
  "probedUrls [] = []"
| "probedUrls (SetUrlStatuses st # es) = probedUrls es"
| "probedUrls (FetchCheckUrl url # es) = url # probedUrls es"

text \<open>
  The state of the component after the effects: the initial empty object, or
  the object of the last setter call.
\<close>

definition finalStatuses :: "Effect list \<Rightarrow> UrlStatuses" where
  "finalStatuses es = (case statusHistory es of [] \<Rightarrow> [] | st # sts \<Rightarrow> last (st # sts))"

text \<open>
  The URLs that both the effect and the view take from a deployment: the
  string of the \<open>url\<close> attribute split on the comma, when the attribute is
  there and its string is not empty.
\<close>

definition extractedUrls :: "DeploymentRecord \<Rightarrow> string list" where
  "extractedUrls deployment =
     (case attrString ''url'' (attributes deployment) of
        None \<Rightarrow> []
      | Some s \<Rightarrow> if s = [] then [] else split (CHR '','') s)"

text \<open>What \<open>UrlList\<close> renders for a deployment and a status object.\<close>

datatype Indicator = Spinning | Green | Red

datatype UrlListView = NoUrlsAvailable | UrlItems "(string \<times> Indicator) list"

definition UrlList :: "DeploymentRecord \<Rightarrow> UrlStatuses \<Rightarrow> UrlListView" where
  "UrlList deployment urlStatuses =
     (case find (\<lambda>attr. key attr = ''url'') (attributes deployment) of
        None \<Rightarrow> NoUrlsAvailable
      | Some urlAttribute \<Rightarrow>
          (case string (value urlAttribute) of
             None \<Rightarrow> NoUrlsAvailable
           | Some s \<Rightarrow>
               if s = [] then NoUrlsAvailable
               else UrlItems
                      (map (\<lambda>url. (url,
                              (case map_of urlStatuses url of
                                 Some Checking \<Rightarrow> Spinning
                               | Some Available \<Rightarrow> Green
                               | _ \<Rightarrow> Red)))
                           (split (CHR '','') s))))"

section \<open>Facts about the string operations\<close>

lemma startsWith_prefix: "startsWith s p \<longleftrightarrow> prefix p s"
  by (metis startsWith_def append_eq_conv_conj prefix_def append_take_drop_id)

lemma split_not_Nil: "split c s \<noteq> []"
  by (induction s) (auto split: list.splits)

lemma split_first: "split c s = takeWhile (\<lambda>x. x \<noteq> c) s # tl (split c s)"
  by (induction s) (auto split: list.splits)

lemma includes_str_sublist: "includes_str s t \<longleftrightarrow> sublist t s"
  by (induction s) (auto simp: startsWith_prefix sublist_Cons_right)

lemma includes_str_empty: "includes_str s []"
  by (simp add: includes_str_sublist)

lemma find_holds: "find P xs = Some x \<Longrightarrow> P x"
  by (induction xs) (auto split: if_splits)

section \<open>The authority of a record\<close>

lemma split_lrn:
  assumes "startsWith n ''lrn://''"
  shows "split (CHR ''/'') n = ''lrn:'' # [] # split (CHR ''/'') (drop 6 n)"
proof -
  have "take 6 n = ''lrn://''"
    using assms by (simp add: startsWith_def eval_nat_numeral)
  then have "n = ''lrn://'' @ drop 6 n"
    using append_take_drop_id [of 6 n] by simp
  then have "split (CHR ''/'') n = split (CHR ''/'') (''lrn://'' @ drop 6 n)"
    by simp
  also have "\<dots> = ''lrn:'' # [] # split (CHR ''/'') (drop 6 n)"
    using split_not_Nil [of "CHR ''/''" "drop 6 n"] by (simp split: list.splits)
  finally show ?thesis .
qed

lemma split_lrn_index2:
  assumes "startsWith n ''lrn://''"
  shows "3 \<le> length (split (CHR ''/'') n)"
    and "split (CHR ''/'') n ! 2 = takeWhile (\<lambda>c. c \<noteq> CHR ''/'') (drop 6 n)"
proof -
  obtain w ws where "split (CHR ''/'') (drop 6 n) = w # ws"
    and "w = takeWhile (\<lambda>c. c \<noteq> CHR ''/'') (drop 6 n)"
    using split_first by blast
  then show "3 \<le> length (split (CHR ''/'') n)"
    and "split (CHR ''/'') n ! 2 = takeWhile (\<lambda>c. c \<noteq> CHR ''/'') (drop 6 n)"
    using split_lrn [OF assms] by simp_all
qed

text \<open>
  Claim C1, as the specification states it, gives \<open>bar\<close> as the authority of a
  record named \<open>lrn://foo/bar/baz\<close>. The split of that name is
  \<open>lrn:\<close>, the empty string, \<open>foo\<close>, \<open>bar\<close>, \<open>baz\<close>, and the part at index 2
  is \<open>foo\<close>: the function does not return \<open>bar\<close>.
\<close>

theorem getAuthority_scenario_counterexample:
  "getAuthority [''lrn://foo/bar/baz''] \<noteq> ''bar''"
  by (simp add: getAuthority_def startsWith_def orElse_def nth_opt_def)

text \<open>
  Claim C1, amended: the authority of \<open>lrn://foo/bar/baz\<close> is \<open>foo\<close> and that of
  the single name \<open>nope\<close> is \<open>Unknown\<close>. In general the first name with the
  prefix \<open>lrn://\<close> is split on the slash and the part at index 2 is returned
  when it is not empty; the result is \<open>Unknown\<close> when there is no such name or
  that part is empty. The split of such a name always has at least three
  parts, and the part at index 2 is what follows the prefix up to the next
  slash.
\<close>

theorem getAuthority_index2:
  "getAuthority [''lrn://foo/bar/baz''] = ''foo''
   \<and> getAuthority [''nope''] = ''Unknown''
   \<and> getAuthority ns =
       (case find (\<lambda>name. prefix ''lrn://'' name) ns of
          None \<Rightarrow> ''Unknown''
        | Some lrnName \<Rightarrow>
            (let parts = split (CHR ''/'') lrnName
             in if 3 \<le> length parts \<and> parts ! 2 \<noteq> [] then parts ! 2 else ''Unknown''))
   \<and> (case find (\<lambda>name. prefix ''lrn://'' name) ns of
          None \<Rightarrow> True
        | Some lrnName \<Rightarrow>
            3 \<le> length (split (CHR ''/'') lrnName)
            \<and> split (CHR ''/'') lrnName ! 2
                = takeWhile (\<lambda>c. c \<noteq> CHR ''/'') (drop 6 lrnName))"
proof -
  have a: "getAuthority [''lrn://foo/bar/baz''] = ''foo''"
    by (simp add: getAuthority_def startsWith_def orElse_def nth_opt_def)
  have b: "getAuthority [''nope''] = ''Unknown''"
    by (simp add: getAuthority_def startsWith_def)
  have eq: "(\<lambda>name. prefix ''lrn://'' name) = (\<lambda>name. startsWith name ''lrn://'')"
    by (simp add: startsWith_prefix)
  show ?thesis
  proof (cases "find (\<lambda>name. startsWith name ''lrn://'') ns")
    case None
    then show ?thesis using a b by (simp add: eq getAuthority_def)
  next
    case (Some n)
    then have sw: "startsWith n ''lrn://''" by (rule find_holds)
    then have "n \<noteq> []" by (auto simp: startsWith_def)
    then show ?thesis
      using a b Some split_lrn_index2 [OF sw]
      by (simp add: eq getAuthority_def orElse_def nth_opt_def Let_def)
  qed
qed

theorem getAuthority_index2_witness:
  "getAuthority [''nope'', ''lrn://laconic/apps/x''] = ''laconic''"
  using getAuthority_index2 [of "[''nope'', ''lrn://laconic/apps/x'']"]
  by (simp add: startsWith_prefix [symmetric] startsWith_def)

section \<open>The address codec on inputs that are not addresses\<close>

lemma funpow6: "(f ^^ 6) x = f (f (f (f (f (f x)))))"
  by (simp add: eval_nat_numeral)

lemma upt6: "[0 ..< 6] = [0, 1, 2, 3, 4, 5]"
  by (simp add: upt_rec)

lemma prefixChk_laconic: "prefixChk ''laconic'' = Inr 578625707"
  by (simp add: prefixChk_def polymodStep_def Let_def)

lemma toLowerCase_laconic: "toLowerCase ''laconic'' = ''laconic''"
  by (simp add: toLowerCase_def lowerChar_def)

lemma checksum_laconic_empty: "(polymodStep ^^ 6) 578625707 XOR 1 = 886221895"
  by (simp add: funpow6 polymodStep_def Let_def)

lemma checksum_chars_laconic_empty:
  "concat (map (\<lambda>i. charAt ALPHABET
             (unat (signed_drop_bit ((5 - i) * 5) (886221895 :: 32 word) AND 0x1f))) [0 ..< 6])
   = ''6d9tz8''"
  by (simp add: upt6 charAt_def ALPHABET_def)

lemma bech32_encode_laconic_empty: "bech32_encode ''laconic'' [] = Inr ''laconic16d9tz8''"
  by (simp add: bech32_encode_def prefixChk_laconic toLowerCase_laconic
      checksum_laconic_empty checksum_chars_laconic_empty)

lemma hexToBech32_empty: "hexToBech32 [] = ''laconic16d9tz8''"
  by (simp add: hexToBech32_def bech32_toWords_def bech32_encode_laconic_empty)

lemma five_bit_mask: "signed_drop_bit 5 ((x :: 32 word) AND 0x1f) = 0"
proof -
  have m: "(x AND 0x1f) = take_bit 5 x"
    by (simp add: take_bit_eq_mask mask_eq_exp_minus_1)
  have "bit (signed_drop_bit 5 (take_bit 5 x)) n = False" for n
    by (auto simp: bit_signed_drop_bit_iff bit_take_bit_iff)
  then show ?thesis
    unfolding m by (simp add: bit_eq_iff)
qed

lemma wordsOut_props:
  "wordsOut v bits res = (bits', res') \<Longrightarrow>
     bits' = bits mod 5 \<and> length res' = length res + bits div 5
     \<and> (fiveBit res \<longrightarrow> fiveBit res')"
proof (induction v bits res arbitrary: bits' res' rule: wordsOut.induct)
  case (1 v bits result)
  show ?case
  proof (cases "5 \<le> bits")
    case True
    then have "wordsOut v (bits - 5) (result @ [signed_drop_bit (bits - 5) v AND 0x1f]) = (bits', res')"
      using "1.prems" by (simp add: wordsOut.simps [of v bits result])
    from "1.IH" [OF True this] True show ?thesis
      by (auto simp: five_bit_mask le_mod_geq le_div_geq fiveBit_def)
  next
    case False
    then show ?thesis using "1.prems" by (simp add: wordsOut.simps [of v bits result])
  qed
qed

lemma convertLoop_props:
  "bits < 5 \<Longrightarrow> convertLoop ds v bits res = (v', bits', res') \<Longrightarrow>
     bits' = (bits + 8 * length ds) mod 5
     \<and> length res' = length res + (bits + 8 * length ds) div 5
     \<and> (fiveBit res \<longrightarrow> fiveBit res')"
proof (induction ds arbitrary: v bits res v' bits' res')
  case Nil
  then show ?case by simp
next
  case (Cons d ds)
  let ?v = "push_bit 8 v OR ucast d"
  obtain b1 r1 where w: "wordsOut ?v (bits + 8) res = (b1, r1)"
    by (cases "wordsOut ?v (bits + 8) res")
  then have rec: "convertLoop ds ?v b1 r1 = (v', bits', res')"
    using Cons.prems by (simp add: Let_def)
  from wordsOut_props [OF w]
  have b1: "b1 = (bits + 8) mod 5" and l1: "length r1 = length res + (bits + 8) div 5"
    and f1: "fiveBit res \<longrightarrow> fiveBit r1" by simp_all
  have "b1 < 5" unfolding b1 by simp
  from Cons.IH [OF this rec]
  have b': "bits' = (b1 + 8 * length ds) mod 5"
    and l': "length res' = length r1 + (b1 + 8 * length ds) div 5"
    and f': "fiveBit r1 \<longrightarrow> fiveBit res'" by simp_all
  have "bits' = (bits + 8 * length (d # ds)) mod 5"
    unfolding b' b1 by simp presburger
  moreover have "length res' = length res + (bits + 8 * length (d # ds)) div 5"
    unfolding l' l1 b1 by simp presburger
  ultimately show ?case using f1 f' by blast
qed

lemma bech32_toWords_props:
  "length (bech32_toWords bytes) = (8 * length bytes + 4) div 5 \<and> fiveBit (bech32_toWords bytes)"
proof -
  obtain v bits res where c: "convertLoop bytes 0 0 [] = (v, bits, res)"
    by (cases "convertLoop bytes 0 0 []") auto
  from convertLoop_props [OF _ c]
  have b: "bits = (8 * length bytes) mod 5" and l: "length res = (8 * length bytes) div 5"
    and f: "fiveBit res" by (simp_all add: fiveBit_def)
  have "length (bech32_toWords bytes) = (8 * length bytes + 4) div 5"
    using b l by (simp add: bech32_toWords_def c) presburger
  moreover have "fiveBit (bech32_toWords bytes)"
    using f by (simp add: bech32_toWords_def c fiveBit_def five_bit_mask)
  ultimately show ?thesis by simp
qed

lemma encodeWords_fiveBit:
  "fiveBit ws \<Longrightarrow> \<exists>chk'. encodeWords ws chk result
      = Inr (chk', result @ concat (map (\<lambda>x. charAt ALPHABET (unat x)) ws))"
proof (induction ws arbitrary: chk result)
  case Nil
  then show ?case by simp
next
  case (Cons x xs)
  then have x: "signed_drop_bit 5 x = 0" and xs: "fiveBit xs"
    by (simp_all add: fiveBit_def)
  from Cons.IH [OF xs, of "polymodStep chk XOR x" "result @ charAt ALPHABET (unat x)"]
  show ?case using x by simp
qed

lemma bech32_encode_laconic:
  assumes "fiveBit ws"
  shows "(76 < length ws \<longrightarrow> bech32_encode ''laconic'' ws = Inl ''Exceeds length limit'')
         \<and> (length ws \<le> 76 \<longrightarrow>
              (\<exists>checksum. bech32_encode ''laconic'' ws
                 = Inr (''laconic1'' @ concat (map (\<lambda>x. charAt ALPHABET (unat x)) ws) @ checksum)))"
proof -
  obtain chk' where e: "encodeWords ws 578625707 ''laconic1''
      = Inr (chk', ''laconic1'' @ concat (map (\<lambda>x. charAt ALPHABET (unat x)) ws))"
    using encodeWords_fiveBit [OF assms] by blast
  show ?thesis
    by (auto simp: bech32_encode_def prefixChk_laconic toLowerCase_laconic e Let_def)
qed

text \<open>
  When the catch block is entered: exactly when the input decodes to 48 bytes
  or more, which takes at least 96 characters. Every shorter decoding gives a
  result that starts with \<open>laconic1\<close>, whatever the input was.
\<close>

lemma hexToBech32_cases:
  "(48 \<le> length (Buffer_from_hex h) \<longrightarrow> hexToBech32 h = h)
   \<and> (length (Buffer_from_hex h) < 48 \<longrightarrow> prefix ''laconic1'' (hexToBech32 h))"
proof -
  let ?ws = "bech32_toWords (Buffer_from_hex h)"
  have len: "length ?ws = (8 * length (Buffer_from_hex h) + 4) div 5" and five: "fiveBit ?ws"
    using bech32_toWords_props by blast+
  have big: "48 \<le> length (Buffer_from_hex h) \<longleftrightarrow> 76 < length ?ws"
    unfolding len by presburger
  show ?thesis
    using bech32_encode_laconic [OF five] big
    by (auto simp: hexToBech32_def)
qed

lemma length_Buffer_from_hex: "length (Buffer_from_hex s) \<le> length s div 2"
  by (induction s rule: Buffer_from_hex.induct) (auto split: option.splits)

text \<open>
  An input whose first two characters are not both hexadecimal digits decodes
  to no bytes at all, and the result is the encoding of the empty byte string.
\<close>

lemma hexToBech32_invalid_first_pair:
  "unhex a = None \<or> unhex b = None \<Longrightarrow> hexToBech32 (a # b # rest) = ''laconic16d9tz8''"
  by (auto simp: hexToBech32_def bech32_toWords_def bech32_encode_laconic_empty
      split: option.splits)

text \<open>
  Claim C2 says that an input that is not valid hexadecimal comes back
  unchanged. The input \<open>nope\<close> is not hexadecimal; decoding it does not raise,
  so the catch block is not entered, and the function returns the encoding of
  zero bytes instead of the input.
\<close>

theorem hexToBech32_non_hex:
  "hexToBech32 ''nope'' = ''laconic16d9tz8'' \<and> hexToBech32 ''nope'' \<noteq> ''nope''"
  by (simp add: hexToBech32_def unhex_def bech32_toWords_def bech32_encode_laconic_empty)

section \<open>The search filter\<close>

lemma orElse_first: "orElse (nth_opt xs 0) [] = (case xs of [] \<Rightarrow> [] | x # _ \<Rightarrow> x)"
  by (cases xs) (simp_all add: orElse_def nth_opt_def)

text \<open>
  Claim C3 has the display name, the authority and the encoded first owner as
  the three fields, with the empty string for a record without owners. On a
  record with no attributes, no names and no owners: the term \<open>laconic\<close>
  passes the filter though it is in neither the display name \<open>Unnamed App\<close>,
  nor the authority \<open>Unknown\<close>, nor the empty string; and the term \<open>unnamed\<close>
  is in the display name but does not pass the filter.
\<close>

theorem matchesSearch_counterexample:
  "matchesSearch ''laconic''
     \<lparr> recId = ''r1'', names = [], attributes = [], bondId = ''b1'',
       createTime = [], expiryTime = [], owners = [] \<rparr>
   \<and> \<not> includes_str (toLowerCase (displayName
          \<lparr> recId = ''r1'', names = [], attributes = [], bondId = ''b1'',
            createTime = [], expiryTime = [], owners = [] \<rparr>)) (toLowerCase ''laconic'')
   \<and> \<not> includes_str (toLowerCase (getAuthority [])) (toLowerCase ''laconic'')
   \<and> \<not> includes_str [] (toLowerCase ''laconic'')
   \<and> includes_str (toLowerCase (displayName
          \<lparr> recId = ''r1'', names = [], attributes = [], bondId = ''b1'',
            createTime = [], expiryTime = [], owners = [] \<rparr>)) (toLowerCase ''unnamed'')
   \<and> \<not> matchesSearch ''unnamed''
     \<lparr> recId = ''r1'', names = [], attributes = [], bondId = ''b1'',
       createTime = [], expiryTime = [], owners = [] \<rparr>"
  by (simp add: matchesSearch_def displayName_def attrString_def orElse_def nth_opt_def
      getAuthority_def hexToBech32_empty toLowerCase_def lowerChar_def startsWith_def)

text \<open>
  Claim C3, amended: a record passes the filter exactly when the lower-cased
  search term is a contiguous part of the lower-cased string of its \<open>name\<close>
  attribute (the empty string when there is none), of its lower-cased
  authority, or of the lower-cased result of \<open>hexToBech32\<close> on its first owner
  (on the empty string when it has no owner).
\<close>

theorem matchesSearch_iff:
  "matchesSearch searchTerm app \<longleftrightarrow>
     sublist (toLowerCase searchTerm)
             (toLowerCase (case attrString ''name'' (attributes app) of
                             None \<Rightarrow> [] | Some n \<Rightarrow> n))
     \<or> sublist (toLowerCase searchTerm) (toLowerCase (getAuthority (names app)))
     \<or> sublist (toLowerCase searchTerm)
                (toLowerCase (hexToBech32 (case owners app of [] \<Rightarrow> [] | x # _ \<Rightarrow> x)))"
proof -
  have "orElse (attrString ''name'' (attributes app)) []
        = (case attrString ''name'' (attributes app) of None \<Rightarrow> [] | Some n \<Rightarrow> n)"
    by (simp add: orElse_def split: option.splits)
  then show ?thesis
    by (simp add: matchesSearch_def Let_def includes_str_sublist orElse_first)
qed

text \<open>
  A search term that is, letter for letter, a part of the \<open>name\<close> attribute of a
  record keeps the record in the filtered list.
\<close>

lemma filter_keeps_name_match:
  assumes "attrString ''name'' (attributes app) = Some n"
    and "sublist searchTerm n"
    and "app \<in> set rs"
  shows "app \<in> set (filter (matchesSearch searchTerm) rs)"
proof -
  have "sublist (toLowerCase searchTerm) (toLowerCase n)"
    unfolding toLowerCase_def using assms(2) by (rule map_mono_sublist)
  then have "matchesSearch searchTerm app"
    using assms(1)
    by (cases "n = []") (simp_all add: matchesSearch_def Let_def includes_str_sublist orElse_def)
  then show ?thesis using assms(3) by simp
qed

section \<open>The statistics\<close>

lemma Set_size_card: "Set_size xs = card (set xs)"
  by (simp add: Set_size_def length_remdups_card_conv)

text \<open>
  Claim C5: \<open>totalApps\<close> is the number of records; \<open>uniqueAuthorities\<close> is the
  number of distinct authorities of the records, \<open>Unknown\<close> being one of the
  values: the records whose authority is \<open>Unknown\<close> count as one authority
  when there are any, however many they are.
\<close>

theorem stats_counts:
  "totalApps (stats parseDate shiftDate now rs) = length rs
   \<and> uniqueAuthorities (stats parseDate shiftDate now rs)
       = card ((\<lambda>app. getAuthority (names app)) ` set rs)
   \<and> uniqueAuthorities (stats parseDate shiftDate now
         (filter (\<lambda>app. getAuthority (names app) = ''Unknown'') rs))
       = (if filter (\<lambda>app. getAuthority (names app) = ''Unknown'') rs = [] then 0 else 1)"
proof -
  let ?f = "\<lambda>app :: ApplicationRecord. getAuthority (names app)"
  let ?us = "filter (\<lambda>app. ?f app = ''Unknown'') rs"
  have "?f ` set ?us = (if ?us = [] then {} else {''Unknown''})"
  proof (cases "?us = []")
    case True
    then show ?thesis by simp
  next
    case False
    then obtain a where "a \<in> set ?us" by (meson last_in_set)
    then show ?thesis using False by auto
  qed
  then have "card (?f ` set ?us) = (if ?us = [] then 0 else 1)"
    by simp
  then show ?thesis
    by (simp add: stats_def Set_size_card)
qed

theorem stats_counts_witness:
  "uniqueAuthorities (stats (\<lambda>s. None) shiftDateFixedOffset 0
     [\<lparr> recId = ''r1'', names = [''nope''], attributes = [], bondId = ''b1'',
        createTime = [], expiryTime = [], owners = [] \<rparr>,
      \<lparr> recId = ''r2'', names = [], attributes = [], bondId = ''b2'',
        createTime = [], expiryTime = [], owners = [] \<rparr>]) = 1"
  using stats_counts [of "\<lambda>s. None" shiftDateFixedOffset 0
     "[\<lparr> recId = ''r1'', names = [''nope''], attributes = [], bondId = ''b1'',
        createTime = [], expiryTime = [], owners = [] \<rparr>,
      \<lparr> recId = ''r2'', names = [], attributes = [], bondId = ''b2'',
        createTime = [], expiryTime = [], owners = [] \<rparr>]"]
  by (simp add: getAuthority_def startsWith_def)

text \<open>
  Claim C6 counts a record as recently created exactly when its creation time
  is within the last 30 days before now. A record created after now (here in
  2030, with now in 2023) is not within the 30 days before now, and it is
  counted.
\<close>

theorem recentlyCreated_counterexample:
  "recentlyCreated
     (stats (\<lambda>s. if s = ''2030-01-01T00:00:00.000Z'' then Some 1893456000000 else None)
        shiftDateFixedOffset 1700000000000
        [\<lparr> recId = ''r1'', names = [], attributes = [], bondId = ''b1'',
           createTime = ''2030-01-01T00:00:00.000Z'', expiryTime = [], owners = [] \<rparr>]) = 1
   \<and> \<not> ((1893456000000 :: int) \<le> 1700000000000)"
  by (simp add: stats_def isRecentlyCreated_def shiftDateFixedOffset_def)

text \<open>
  Claim C6, amended: a record is counted as recently created exactly when its
  creation time is a valid date strictly later than the date 30 days before
  now, with no upper end; it is counted as soon expiring exactly when its
  expiry time is a valid date strictly earlier than the date 30 days after
  now, with no lower end. A time equal to the boundary is not counted in either
  case. Where the offset of the time zone does not change, the two boundaries
  are now minus and plus 2592000000 milliseconds.
\<close>

theorem recentlyCreated_strict:
  "(isRecentlyCreated parseDate shiftDate now app
      \<longleftrightarrow> (\<exists>t. parseDate (createTime app) = Some t \<and> shiftDate now (- 30) < t))
   \<and> (isSoonExpiring parseDate shiftDate now app
      \<longleftrightarrow> (\<exists>t. parseDate (expiryTime app) = Some t \<and> t < shiftDate now 30))
   \<and> (parseDate (createTime app) = Some (shiftDate now (- 30))
      \<longrightarrow> \<not> isRecentlyCreated parseDate shiftDate now app)
   \<and> (parseDate (expiryTime app) = Some (shiftDate now 30)
      \<longrightarrow> \<not> isSoonExpiring parseDate shiftDate now app)
   \<and> recentlyCreated (stats parseDate shiftDate now rs)
       = length (filter (isRecentlyCreated parseDate shiftDate now) rs)
   \<and> soonExpiring (stats parseDate shiftDate now rs)
       = length (filter (isSoonExpiring parseDate shiftDate now) rs)
   \<and> shiftDateFixedOffset now (- 30) = now - 2592000000
   \<and> shiftDateFixedOffset now 30 = now + 2592000000"
  by (auto simp: isRecentlyCreated_def isSoonExpiring_def stats_def shiftDateFixedOffset_def
      split: option.splits)

theorem recentlyCreated_strict_witness:
  "(\<lambda>s. if s = ''2023-10-15T22:13:20.000Z'' then Some (1697408000000 :: int)
         else if s = ''2023-12-14T22:13:20.000Z'' then Some 1702592000000 else None)
       ''2023-10-15T22:13:20.000Z'' = Some (shiftDateFixedOffset 1700000000000 (- 30))
   \<and> (\<lambda>s. if s = ''2023-10-15T22:13:20.000Z'' then Some (1697408000000 :: int)
         else if s = ''2023-12-14T22:13:20.000Z'' then Some 1702592000000 else None)
       ''2023-12-14T22:13:20.000Z'' = Some (shiftDateFixedOffset 1700000000000 30)
   \<and> \<not> isRecentlyCreated
        (\<lambda>s. if s = ''2023-10-15T22:13:20.000Z'' then Some 1697408000000
              else if s = ''2023-12-14T22:13:20.000Z'' then Some 1702592000000 else None)
        shiftDateFixedOffset 1700000000000
        \<lparr> recId = ''r1'', names = [], attributes = [], bondId = ''b1'',
          createTime = ''2023-10-15T22:13:20.000Z'',
          expiryTime = ''2023-12-14T22:13:20.000Z'', owners = [] \<rparr>
   \<and> \<not> isSoonExpiring
        (\<lambda>s. if s = ''2023-10-15T22:13:20.000Z'' then Some 1697408000000
              else if s = ''2023-12-14T22:13:20.000Z'' then Some 1702592000000 else None)
        shiftDateFixedOffset 1700000000000
        \<lparr> recId = ''r1'', names = [], attributes = [], bondId = ''b1'',
          createTime = ''2023-10-15T22:13:20.000Z'',
          expiryTime = ''2023-12-14T22:13:20.000Z'', owners = [] \<rparr>"
  using recentlyCreated_strict
    [of "\<lambda>s. if s = ''2023-10-15T22:13:20.000Z'' then Some 1697408000000
              else if s = ''2023-12-14T22:13:20.000Z'' then Some 1702592000000 else None"
        shiftDateFixedOffset 1700000000000
        "\<lparr> recId = ''r1'', names = [], attributes = [], bondId = ''b1'',
          createTime = ''2023-10-15T22:13:20.000Z'',
          expiryTime = ''2023-12-14T22:13:20.000Z'', owners = [] \<rparr>"]
  by (simp add: shiftDateFixedOffset_def)

section \<open>The empty search term\<close>

lemma mset_insertBy: "mset (insertBy cmp x ys) = add_mset x (mset ys)"
  by (induction ys) auto

lemma mset_sortBy: "mset (sortBy cmp xs) = mset xs"
  by (induction xs) (auto simp: sortBy_def mset_insertBy)

lemma matchesSearch_empty: "matchesSearch [] app"
  by (simp add: matchesSearch_def Let_def toLowerCase_def includes_str_empty)

text \<open>
  Claim C9: with the empty search term every record passes the filter, the
  filter returns the list it was given, and the filtered and sorted list has
  the same records with the same multiplicities as the full list, whatever the
  sort option and the comparison of the runtime.
\<close>

theorem empty_search_identity:
  "matchesSearch [] app
   \<and> filter (matchesSearch []) rs = rs
   \<and> mset (filteredAndSortedApps parseDate localeCompare sortOption [] rs) = mset rs"
  by (simp add: filteredAndSortedApps_def mset_sortBy matchesSearch_empty)

section \<open>The two fetches\<close>

lemma fetchApps_Rejected: "fetchApps Rejected st = st\<lparr> isLoading := False \<rparr>"
  by (simp add: fetchApps_def)

lemma fetchApps_no_data:
  "data b = None \<Longrightarrow> fetchApps (Resolved b) st = st\<lparr> isLoading := False \<rparr>"
  by (simp add: fetchApps_def)

lemma fetchDeployments_Rejected:
  "fetchDeployments Rejected st = st\<lparr> isLoading' := False \<rparr>"
  by (simp add: fetchDeployments_def)

lemma fetchDeployments_errors:
  "errors b \<noteq> None \<Longrightarrow> fetchDeployments (Resolved b) st = st\<lparr> isLoading' := False \<rparr>"
  by (simp add: fetchDeployments_def)

text \<open>
  Claim C7 maps every error payload of the registry to the empty record list.
  \<open>fetchDeployments\<close> does so: a body with \<open>errors\<close> leaves the list as it was.
  \<open>fetchApps\<close> never looks at \<open>errors\<close>. For a body with \<open>errors\<close> and a null
  record list it stores the null list, and the page then raises while
  rendering; for a body with \<open>errors\<close> and some records it shows these
  records.
\<close>

theorem fetchApps_error_payload:
  "fetchApps (Resolved \<lparr> errors = Some [''resolver failed''],
                         data = Some \<lparr> appDeploymentRecords = None \<rparr> \<rparr>) initialAppList
     = \<lparr> apps = None, isLoading = False \<rparr>
   \<and> renderAppList (fetchApps (Resolved \<lparr> errors = Some [''resolver failed''],
                         data = Some \<lparr> appDeploymentRecords = None \<rparr> \<rparr>) initialAppList)
     = RenderRaises
   \<and> fetchApps (Resolved \<lparr> errors = Some [''resolver failed''],
        data = Some \<lparr> appDeploymentRecords = Some
          [\<lparr> recId = ''r1'', names = [], attributes = [], bondId = ''b1'',
             createTime = [], expiryTime = [], owners = [] \<rparr>] \<rparr> \<rparr>) initialAppList
     = \<lparr> apps = Some [\<lparr> recId = ''r1'', names = [], attributes = [], bondId = ''b1'',
             createTime = [], expiryTime = [], owners = [] \<rparr>], isLoading = False \<rparr>
   \<and> fetchDeployments (Resolved \<lparr> errors = Some [''resolver failed''],
                         data = Some \<lparr> appDeploymentRecords = None \<rparr> \<rparr>) initialDeploymentPage
     = \<lparr> deployments = Some [], isLoading' = False \<rparr>"
  by (simp add: fetchApps_def fetchDeployments_def initialAppList_def initialDeploymentPage_def
      renderAppList_def)

section \<open>The check-url route\<close>

text \<open>
  Claim C8 gives status 400 to a request without the parameter and a success
  with \<open>isAvailable\<close> to every other request. A request whose parameter is
  there and empty gets status 400 as well.
\<close>

theorem GET_empty_url_counterexample:
  "GET (\<lambda>u. HeadResponse 200) (Some [])
     = \<lparr> status = 400, body = ErrorJson ''URL parameter is required'' \<rparr>"
  by (simp add: GET_def)

text \<open>
  Claim C8, amended: the route answers with status 400 and an error body when
  the \<open>url\<close> parameter is missing or empty; for every other request it
  answers with status 200 and \<open>isAvailable\<close>, which is true exactly when the
  HEAD request did not raise and its status code is from 200 to 299.
\<close>

theorem GET_cases:
  "GET fetchHead None = \<lparr> status = 400, body = ErrorJson ''URL parameter is required'' \<rparr>
   \<and> GET fetchHead (Some []) = \<lparr> status = 400, body = ErrorJson ''URL parameter is required'' \<rparr>
   \<and> GET fetchHead (Some (c # cs))
       = \<lparr> status = 200,
           body = IsAvailableJson
                    (case fetchHead (c # cs) of
                       HeadRaised \<Rightarrow> False
                     | HeadResponse code \<Rightarrow> 200 \<le> code \<and> code \<le> 299) \<rparr>"
  by (simp add: GET_def response_ok_def split: HeadReply.splits)

theorem GET_cases_witness:
  "GET (\<lambda>u. if u = ''http://a'' then HeadResponse 204 else HeadRaised) (Some ''http://a'')
     = \<lparr> status = 200, body = IsAvailableJson True \<rparr>
   \<and> GET (\<lambda>u. if u = ''http://a'' then HeadResponse 204 else HeadRaised) (Some ''http://b'')
     = \<lparr> status = 200, body = IsAvailableJson False \<rparr>
   \<and> GET (\<lambda>u. HeadResponse 404) (Some ''http://a'')
     = \<lparr> status = 200, body = IsAvailableJson False \<rparr>"
  using
    GET_cases [of "\<lambda>u. if u = ''http://a'' then HeadResponse 204 else HeadRaised"
                  "CHR ''h''" "''ttp://a''"]
    GET_cases [of "\<lambda>u. if u = ''http://a'' then HeadResponse 204 else HeadRaised"
                  "CHR ''h''" "''ttp://b''"]
    GET_cases [of "\<lambda>u. HeadResponse 404" "CHR ''h''" "''ttp://a''"]
  by simp

section \<open>The reachability prober\<close>

lemma checkUrls_extracted:
  "checkUrls env d =
     (if extractedUrls d = [] then []
      else SetUrlStatuses (fromEntries (map (\<lambda>url. (url, Checking)) (extractedUrls d)))
           # probeLoop env 0 (extractedUrls d)
               (fromEntries (map (\<lambda>url. (url, Checking)) (extractedUrls d))))"
  by (simp add: checkUrls_def extractedUrls_def attrString_def split_not_Nil Let_def
      split: option.splits)

lemma probedUrls_probeLoop: "probedUrls (probeLoop env i urls prev) = urls"
  by (induction urls arbitrary: i prev) (simp_all add: Let_def)

lemma keys_fromEntries_aux:
  "fst ` set (fold (\<lambda>(k, v) obj. AList.update k v obj) es acc) = fst ` set es \<union> fst ` set acc"
  by (induction es arbitrary: acc) (auto simp: dom_update split: prod.splits)

lemma keys_fromEntries: "fst ` set (fromEntries es) = fst ` set es"
  by (simp add: fromEntries_def keys_fromEntries_aux)

lemma set_update_subset: "set (AList.update k v al) \<subseteq> insert (k, v) (set al)"
  by (induction al) auto

lemma values_fromEntries_aux:
  "snd ` set acc \<subseteq> {c} \<Longrightarrow>
   snd ` set (fold (\<lambda>(k, v) obj. AList.update k v obj) (map (\<lambda>u. (u, c)) us) acc) \<subseteq> {c}"
proof (induction us arbitrary: acc)
  case Nil
  then show ?case by simp
next
  case (Cons u us)
  have "snd ` set (AList.update u c acc) \<subseteq> {c}"
    using Cons.prems set_update_subset [of u c acc] by fastforce
  then show ?case using Cons.IH by simp
qed

lemma values_fromEntries: "snd ` set (fromEntries (map (\<lambda>u. (u, c)) us)) \<subseteq> {c}"
  unfolding fromEntries_def by (rule values_fromEntries_aux) simp

lemma distinct_fromEntries_aux:
  "distinct (map fst acc) \<Longrightarrow>
   distinct (map fst (fold (\<lambda>(k, v) obj. AList.update k v obj) es acc))"
  by (induction es arbitrary: acc) (auto simp: distinct_update split: prod.splits)

lemma distinct_fromEntries: "distinct (map fst (fromEntries es))"
  by (simp add: fromEntries_def distinct_fromEntries_aux)

lemma probeLoop_untouched:
  "u \<notin> set urls \<Longrightarrow>
   map_of (last (prev # statusHistory (probeLoop env i urls prev))) u = map_of prev u"
  by (induction urls arbitrary: i prev) (auto simp: Let_def update_conv')

lemma probeLoop_last:
  "fst ` set (last (prev # statusHistory (probeLoop env i urls prev))) = set urls \<union> fst ` set prev
   \<and> (distinct (map fst prev)
        \<longrightarrow> distinct (map fst (last (prev # statusHistory (probeLoop env i urls prev)))))
   \<and> (\<forall>u \<in> set urls. \<exists>j. map_of (last (prev # statusHistory (probeLoop env i urls prev))) u
                         = Some (probeStatus (env j u)))"
proof (induction urls arbitrary: i prev)
  case Nil
  then show ?case by simp
next
  case (Cons x xs)
  let ?next = "AList.update x (probeStatus (env i x)) prev"
  let ?fin = "last (?next # statusHistory (probeLoop env (Suc i) xs ?next))"
  have fin: "last (prev # statusHistory (probeLoop env i (x # xs) prev)) = ?fin"
    by (simp add: Let_def)
  note IH = Cons.IH [where i = "Suc i" and prev = ?next]
  have keys: "fst ` set ?fin = set (x # xs) \<union> fst ` set prev"
    using IH by (auto simp: dom_update)
  have dist: "distinct (map fst prev) \<longrightarrow> distinct (map fst ?fin)"
    using IH by (simp add: distinct_update)
  have vals: "\<exists>j. map_of ?fin u = Some (probeStatus (env j u))" if "u \<in> set (x # xs)" for u
  proof (cases "u \<in> set xs")
    case True
    then show ?thesis using IH by blast
  next
    case False
    then have ux: "u = x" using that by simp
    have "map_of ?fin u = map_of ?next u"
      using False probeLoop_untouched by blast
    then show ?thesis using ux by (auto simp: update_conv')
  qed
  show ?case unfolding fin using keys dist vals by blast
qed

lemma probeStatus_terminal: "probeStatus r = Available \<or> probeStatus r = Unavailable"
  by (cases r) (simp_all add: probeStatus_def)

lemma finalStatuses_checkUrls:
  "finalStatuses (checkUrls env d) =
     (if extractedUrls d = [] then []
      else last (fromEntries (map (\<lambda>url. (url, Checking)) (extractedUrls d))
                 # statusHistory (probeLoop env 0 (extractedUrls d)
                     (fromEntries (map (\<lambda>url. (url, Checking)) (extractedUrls d))))))"
  by (simp add: checkUrls_extracted finalStatuses_def)

lemma no_url_dropped:
  "probedUrls (checkUrls env d) = extractedUrls d
   \<and> set (map fst (finalStatuses (checkUrls env d))) = set (extractedUrls d)
   \<and> distinct (map fst (finalStatuses (checkUrls env d)))
   \<and> list_all (\<lambda>u. map_of (finalStatuses (checkUrls env d)) u = Some Available
                    \<or> map_of (finalStatuses (checkUrls env d)) u = Some Unavailable)
        (extractedUrls d)"
proof (cases "extractedUrls d = []")
  case True
  then show ?thesis by (simp add: checkUrls_extracted finalStatuses_def)
next
  case False
  let ?us = "extractedUrls d"
  let ?init = "fromEntries (map (\<lambda>url. (url, Checking)) ?us)"
  let ?fin = "last (?init # statusHistory (probeLoop env 0 ?us ?init))"
  have fin: "finalStatuses (checkUrls env d) = ?fin"
    using False by (simp add: finalStatuses_checkUrls)
  have init_keys: "fst ` set ?init = set ?us"
    by (simp add: keys_fromEntries image_comp comp_def)
  note L = probeLoop_last [of ?init env 0 ?us]
  have a: "probedUrls (checkUrls env d) = ?us"
    using False by (simp add: checkUrls_extracted probedUrls_probeLoop)
  have b: "set (map fst ?fin) = set ?us"
    using L init_keys by simp
  have c: "distinct (map fst ?fin)"
    using L distinct_fromEntries by blast
  have d: "list_all (\<lambda>u. map_of ?fin u = Some Available \<or> map_of ?fin u = Some Unavailable) ?us"
    unfolding list_all_iff using L probeStatus_terminal by metis
  show ?thesis unfolding fin using a b c d by blast
qed

lemma extractedUrls_two:
  "attrString ''url'' (attributes d) = Some ''http://a,http://b''
   \<Longrightarrow> extractedUrls d = [''http://a'', ''http://b'']"
  by (simp add: extractedUrls_def)

text \<open>
  Claim C4: for a deployment whose \<open>url\<close> attribute is \<open>http://a,http://b\<close>
  the effects are, in this order: the status object with exactly the two keys,
  both \<open>Checking\<close>; the request for the first URL and the object with the
  first entry at its outcome; the request for the second URL and the object
  with the second entry at its outcome. Each outcome is \<open>Available\<close> or
  \<open>Unavailable\<close>, and an entry that has its outcome is not set again. Every
  request is taken to end, with an answer or by raising. For every deployment,
  the requests are the extracted URLs in their order, the keys of the last
  status object are exactly the extracted URLs, one entry for each, and each
  of them has a terminal status there.
\<close>

theorem checkUrls_two_urls:
  "attrString ''url'' (attributes d) = Some ''http://a,http://b'' \<longrightarrow>
     checkUrls env d =
       [SetUrlStatuses [(''http://a'', Checking), (''http://b'', Checking)],
        FetchCheckUrl ''http://a'',
        SetUrlStatuses [(''http://a'', probeStatus (env 0 ''http://a'')), (''http://b'', Checking)],
        FetchCheckUrl ''http://b'',
        SetUrlStatuses [(''http://a'', probeStatus (env 0 ''http://a'')),
                        (''http://b'', probeStatus (env 1 ''http://b''))]]
     \<and> (probeStatus (env 0 ''http://a'') = Available
          \<or> probeStatus (env 0 ''http://a'') = Unavailable)
     \<and> (probeStatus (env 1 ''http://b'') = Available
          \<or> probeStatus (env 1 ''http://b'') = Unavailable)
     \<and> probedUrls (checkUrls env d) = extractedUrls d
     \<and> set (map fst (finalStatuses (checkUrls env d))) = set (extractedUrls d)
     \<and> distinct (map fst (finalStatuses (checkUrls env d)))
     \<and> list_all (\<lambda>u. map_of (finalStatuses (checkUrls env d)) u = Some Available
                      \<or> map_of (finalStatuses (checkUrls env d)) u = Some Unavailable)
          (extractedUrls d)"
proof
  assume h: "attrString ''url'' (attributes d) = Some ''http://a,http://b''"
  have us: "extractedUrls d = [''http://a'', ''http://b'']"
    using h by (rule extractedUrls_two)
  have trace: "checkUrls env d =
       [SetUrlStatuses [(''http://a'', Checking), (''http://b'', Checking)],
        FetchCheckUrl ''http://a'',
        SetUrlStatuses [(''http://a'', probeStatus (env 0 ''http://a'')), (''http://b'', Checking)],
        FetchCheckUrl ''http://b'',
        SetUrlStatuses [(''http://a'', probeStatus (env 0 ''http://a'')),
                        (''http://b'', probeStatus (env 1 ''http://b''))]]"
    by (simp add: checkUrls_extracted us fromEntries_def Let_def)
  show "checkUrls env d =
       [SetUrlStatuses [(''http://a'', Checking), (''http://b'', Checking)],
        FetchCheckUrl ''http://a'',
        SetUrlStatuses [(''http://a'', probeStatus (env 0 ''http://a'')), (''http://b'', Checking)],
        FetchCheckUrl ''http://b'',
        SetUrlStatuses [(''http://a'', probeStatus (env 0 ''http://a'')),
                        (''http://b'', probeStatus (env 1 ''http://b''))]]
     \<and> (probeStatus (env 0 ''http://a'') = Available
          \<or> probeStatus (env 0 ''http://a'') = Unavailable)
     \<and> (probeStatus (env 1 ''http://b'') = Available
          \<or> probeStatus (env 1 ''http://b'') = Unavailable)
     \<and> probedUrls (checkUrls env d) = extractedUrls d
     \<and> set (map fst (finalStatuses (checkUrls env d))) = set (extractedUrls d)
     \<and> distinct (map fst (finalStatuses (checkUrls env d)))
     \<and> list_all (\<lambda>u. map_of (finalStatuses (checkUrls env d)) u = Some Available
                      \<or> map_of (finalStatuses (checkUrls env d)) u = Some Unavailable)
          (extractedUrls d)"
    using trace probeStatus_terminal no_url_dropped [of env d] by blast
qed

theorem checkUrls_two_urls_witness:
  "attrString ''url''
     (attributes \<lparr> recId = ''d1'', names = [''n1''],
        attributes = [\<lparr> key = ''url'', value = \<lparr> string = Some ''http://a,http://b'' \<rparr> \<rparr>] \<rparr>)
     = Some ''http://a,http://b''
   \<and> statusHistory (checkUrls (\<lambda>i u. if i = 0 then CheckJson True else CheckRaised)
        \<lparr> recId = ''d1'', names = [''n1''],
          attributes = [\<lparr> key = ''url'', value = \<lparr> string = Some ''http://a,http://b'' \<rparr> \<rparr>] \<rparr>)
     = [[(''http://a'', Checking), (''http://b'', Checking)],
        [(''http://a'', Available), (''http://b'', Checking)],
        [(''http://a'', Available), (''http://b'', Unavailable)]]"
  using checkUrls_two_urls
    [of "\<lparr> recId = ''d1'', names = [''n1''],
          attributes = [\<lparr> key = ''url'', value = \<lparr> string = Some ''http://a,http://b'' \<rparr> \<rparr>] \<rparr>"
        "\<lambda>i u. if i = 0 then CheckJson True else CheckRaised"]
  by (simp add: attrString_def probeStatus_def)

text \<open>
  Claim C10: when the deployment has no \<open>url\<close> attribute with a string, or
  the string is empty, \<open>checkUrls\<close> has no effect at all: no request (so the
  empty string is not requested either), no call of the state setter, the
  status object stays empty, and the view is the fallback line.
\<close>

theorem checkUrls_no_urls:
  "attrString ''url'' (attributes d) = None \<or> attrString ''url'' (attributes d) = Some []
   \<Longrightarrow> checkUrls env d = []
       \<and> probedUrls (checkUrls env d) = []
       \<and> statusHistory (checkUrls env d) = []
       \<and> finalStatuses (checkUrls env d) = []
       \<and> UrlList d urlStatuses = NoUrlsAvailable"
  by (auto simp: checkUrls_def UrlList_def attrString_def finalStatuses_def
      split: option.splits)

theorem checkUrls_no_urls_witness:
  "checkUrls (\<lambda>i u. CheckJson True) \<lparr> recId = ''d1'', names = [''n1''], attributes = [] \<rparr> = []
   \<and> UrlList \<lparr> recId = ''d1'', names = [''n1''], attributes = [] \<rparr> [] = NoUrlsAvailable
   \<and> probedUrls (checkUrls (\<lambda>i u. CheckJson True)
        \<lparr> recId = ''d2'', names = [''n2''],
          attributes = [\<lparr> key = ''url'', value = \<lparr> string = Some [] \<rparr> \<rparr>] \<rparr>) = []
   \<and> UrlList \<lparr> recId = ''d2'', names = [''n2''],
          attributes = [\<lparr> key = ''url'', value = \<lparr> string = Some [] \<rparr> \<rparr>] \<rparr> [] = NoUrlsAvailable"
  using checkUrls_no_urls
    [of "\<lparr> recId = ''d1'', names = [''n1''], attributes = [] \<rparr>" "\<lambda>i u. CheckJson True" "[]"]
    checkUrls_no_urls
    [of "\<lparr> recId = ''d2'', names = [''n2''],
          attributes = [\<lparr> key = ''url'', value = \<lparr> string = Some [] \<rparr> \<rparr>] \<rparr>"
        "\<lambda>i u. CheckJson True" "[]"]
  by (simp add: attrString_def)

end
